theory Spec2Isabelle
  imports Complex_Main
begin

section \<open>Errors and effects\<close>

text \<open>
  The client throws plain JavaScript \<^verbatim>\<open>Error\<close> objects that differ only in their
  message, so an error raised by the client is \<open>Error msg\<close>. \<open>TypeError\<close> is what
  the runtime raises when a property is read from \<^verbatim>\<open>undefined\<close> or \<^verbatim>\<open>null\<close>.
  \<open>InvalidFeeRateError\<close> is the error of the approval-amount calculator.
\<close>

datatype error = Error string | TypeError | InvalidFeeRateError

text \<open>
  The arguments handed to the ledger client. \<^verbatim>\<open>parseInt\<close> and \<^verbatim>\<open>toString\<close> are
  library functions; an argument records to what they are applied.
\<close>

datatype arg =
    Num int
  | Str string
  | ParseInt string
  | BigIntToString int

text \<open>
  Every call that leaves the client: reads of the indexed data service, reads and writes
  of the ledger. An operation returns the calls it made, in order, with its result.
\<close>

datatype call =
    ProposalGetOne int string
  | ServiceGetOne int string
  | GetProtocolAndPlatformsFees string string
  | CheckAllowance string
  | Erc20Approve string int
  | WaitForTransactionReceipt string
  | WriteContract string string "arg list" "int option"

type_synonym 'a io = "call list \<times> (error + 'a)"

definition return :: "'a \<Rightarrow> 'a io" where
  "return x = ([], Inr x)"

definition throw :: "error \<Rightarrow> 'a io" where
  "throw e = ([], Inl e)"

definition await :: "call \<Rightarrow> error + 'a \<Rightarrow> 'a io" where
  "await c r = ([c], r)"

definition bind :: "'a io \<Rightarrow> ('a \<Rightarrow> 'b io) \<Rightarrow> 'b io" where
  "bind m f =
     (case m of
        (t, Inl e) \<Rightarrow> (t, Inl e)
      | (t, Inr x) \<Rightarrow> (case f x of (t', r) \<Rightarrow> (t @ t', r)))"

definition try_catch :: "'a io \<Rightarrow> (error \<Rightarrow> 'a io) \<Rightarrow> 'a io" where
  "try_catch m h =
     (case m of
        (t, Inl e) \<Rightarrow> (case h e of (t', r) \<Rightarrow> (t @ t', r))
      | (t, Inr x) \<Rightarrow> (t, Inr x))"

text \<open>JavaScript truthiness of a possibly absent string: absent and empty are falsy.\<close>

fun truthy :: "string option \<Rightarrow> bool" where
  "truthy None = False"
| "truthy (Some s) = (s \<noteq> [])"

text \<open>\<^verbatim>\<open>platformId || this.platformID\<close>: an absent or zero identifier falls back.\<close>

fun or_default :: "int option \<Rightarrow> int \<Rightarrow> int" where
  "or_default None d = d"
| "or_default (Some p) d = (if p = 0 then d else p)"

section \<open>Approval amount calculator\<close>

text \<open>
  Modelled from the spec: the constant \<^verbatim>\<open>FEE_RATE_DIVIDER\<close> of \<^verbatim>\<open>constants\<close>,
  a fixed integer, 10000.
\<close>

definition FEE_RATE_DIVIDER :: int where
  "FEE_RATE_DIVIDER = 10000"

text \<open>
  Modelled from the spec: the calculator of \<^verbatim>\<open>utils/fees\<close>. The total is the base
  rate amount plus three fee components, each \<open>rateAmount * feeRate / divider\<close> in
  integer arithmetic on the same base; negative inputs are rejected.
\<close>

definition computeApprovalAmount :: "int \<Rightarrow> int \<Rightarrow> int \<Rightarrow> int \<Rightarrow> int \<Rightarrow> error + int" where
  "computeApprovalAmount rateAmount originServiceFeeRate originValidatedProposalFeeRate
       protocolEscrowFeeRate divider =
     (if rateAmount < 0 \<or> originServiceFeeRate < 0 \<or> originValidatedProposalFeeRate < 0
         \<or> protocolEscrowFeeRate < 0
      then Inl InvalidFeeRateError
      else Inr (rateAmount
                + rateAmount * originServiceFeeRate div divider
                + rateAmount * originValidatedProposalFeeRate div divider
                + rateAmount * protocolEscrowFeeRate div divider))"

text \<open>
  Modelled from the spec: the four-argument \<^verbatim>\<open>calculateApprovalAmount\<close> that
  \<^verbatim>\<open>Escrow.approve\<close> calls, the calculator at the fixed divider.
\<close>

definition calculateApprovalAmount :: "int \<Rightarrow> int \<Rightarrow> int \<Rightarrow> int \<Rightarrow> error + int" where
  "calculateApprovalAmount rateAmount originServiceFeeRate originValidatedProposalFeeRate
       protocolEscrowFeeRate =
     computeApprovalAmount rateAmount originServiceFeeRate originValidatedProposalFeeRate
       protocolEscrowFeeRate FEE_RATE_DIVIDER"

section \<open>Escrow\<close>

text \<open>
  Modelled from the spec: \<^verbatim>\<open>RateToken.NATIVE\<close> of \<^verbatim>\<open>types\<close>, the native-currency
  sentinel, the zero address.
\<close>

definition RateToken_NATIVE :: string where
  "RateToken_NATIVE = ''0x0000000000000000000000000000000000000000''"

text \<open>
  The proposal as \<^verbatim>\<open>Escrow.approve\<close> reads it: \<^verbatim>\<open>proposal.cid\<close>,
  \<^verbatim>\<open>proposal.seller.id\<close>, \<^verbatim>\<open>proposal.service.platform.id\<close>, \<^verbatim>\<open>proposal.platform.id\<close>,
  \<^verbatim>\<open>proposal.rateAmount\<close> and \<^verbatim>\<open>proposal.rateToken.address\<close>.
\<close>

record Proposal =
  proposal_cid :: "string option"
  seller_id :: string
  service_platform_id :: string
  platform_id :: string
  rateAmount :: int
  rateToken_address :: string

text \<open>
  The data of the fee query: \<^verbatim>\<open>servicePlatform.originServiceFeeRate\<close>,
  \<^verbatim>\<open>proposalPlatform.originValidatedProposalFeeRate\<close> (a platform the index does not
  know is \<^verbatim>\<open>null\<close>) and the \<^verbatim>\<open>protocolEscrowFeeRate\<close> of each entry of
  \<^verbatim>\<open>protocols\<close>.
\<close>

record Fees =
  servicePlatform :: "int option"
  proposalPlatform :: "int option"
  protocols :: "int list"

record Transaction =
  transaction_id :: "string option"

record Service =
  transaction :: "Transaction option"

record ClientTransactionResponse =
  tx :: string
  cid :: string

text \<open>
  The \<^verbatim>\<open>Escrow\<close> object: its default platform and the behaviour of its collaborators
  (the proposal and service lookups, the indexed data service, the ERC-20 binding and the
  ledger client). Each collaborator call returns a value or throws.
\<close>

record Escrow =
  platformID :: int
  proposal_getOne :: "int \<Rightarrow> string \<Rightarrow> error + Proposal option"
  service_getOne :: "int \<Rightarrow> string \<Rightarrow> error + Service option"
  graphQlClient_fees :: "string \<Rightarrow> string \<Rightarrow> error + Fees option"
  erc20_checkAllowance :: "string \<Rightarrow> error + int"
  erc20_approve :: "string \<Rightarrow> int \<Rightarrow> error + string"
  waitForTransactionReceipt :: "string \<Rightarrow> error + string"
  writeContract :: "string \<Rightarrow> string \<Rightarrow> arg list \<Rightarrow> int option \<Rightarrow> error + string option"

text \<open>
  \<^verbatim>\<open>Escrow.getProtocolAndPlatformsFees\<close>: one read of the indexed data service,
  \<^verbatim>\<open>response?.data || null\<close>.
\<close>

definition getProtocolAndPlatformsFees :: "Escrow \<Rightarrow> string \<Rightarrow> string \<Rightarrow> Fees option io" where
  "getProtocolAndPlatformsFees this originServicePlatformId originValidatedProposalPlatformId =
     await (GetProtocolAndPlatformsFees originServicePlatformId originValidatedProposalPlatformId)
       (graphQlClient_fees this originServicePlatformId originValidatedProposalPlatformId)"

text \<open>
  The three fee rates that \<^verbatim>\<open>approve\<close> reads from the fee data, in the order of the
  call; reading a rate of an absent platform or of \<^verbatim>\<open>protocols[0]\<close> of an empty list
  raises a \<^verbatim>\<open>TypeError\<close>.
\<close>

definition fee_rates :: "Fees \<Rightarrow> (int \<times> int \<times> int) io" where
  "fee_rates f =
     (case servicePlatform f of
        None \<Rightarrow> throw TypeError
      | Some originServiceFeeRate \<Rightarrow>
          (case proposalPlatform f of
             None \<Rightarrow> throw TypeError
           | Some originValidatedProposalFeeRate \<Rightarrow>
               (case protocols f of
                  [] \<Rightarrow> throw TypeError
                | protocolEscrowFeeRate # _ \<Rightarrow>
                    return (originServiceFeeRate, originValidatedProposalFeeRate,
                            protocolEscrowFeeRate))))"

text \<open>
  The ERC-20 approval of \<^verbatim>\<open>approve\<close>: the \<^verbatim>\<open>try\<close> block submits the approval,
  waits for its receipt and throws on a status other than \<^verbatim>\<open>success\<close>; the
  \<^verbatim>\<open>catch\<close> block replaces whatever was thrown.
\<close>

definition request_allowance :: "Escrow \<Rightarrow> string \<Rightarrow> int \<Rightarrow> unit io" where
  "request_allowance this token approvalAmount =
     try_catch
       (bind (await (Erc20Approve token approvalAmount) (erc20_approve this token approvalAmount))
          (\<lambda>approvalTransaction.
        bind (await (WaitForTransactionReceipt approvalTransaction)
                (waitForTransactionReceipt this approvalTransaction))
          (\<lambda>status.
        if status \<noteq> ''success'' then throw (Error ''Unable to get approval'')
        else return ())))
       (\<lambda>e. throw (Error ''Approval transaction failed with error''))"

text \<open>
  \<^verbatim>\<open>Escrow.approve\<close>. The function \<^verbatim>\<open>calculateApprovalAmount\<close> that it imports
  from \<^verbatim>\<open>utils/fees\<close> is the parameter \<open>calculate\<close>, so that what is proved of
  \<^verbatim>\<open>approve\<close> holds for every calculator. The logger calls have no effect on the
  result.
\<close>

definition approve :: "(int \<Rightarrow> int \<Rightarrow> int \<Rightarrow> int \<Rightarrow> error + int) \<Rightarrow> Escrow \<Rightarrow> string \<Rightarrow> string
    \<Rightarrow> string \<Rightarrow> int option \<Rightarrow> ClientTransactionResponse io" where
  "approve calculate this serviceId proposalId metaEvidenceCid platformId =
     (let platformID' = or_default platformId (platformID this) in
      bind (await (ProposalGetOne platformID' proposalId)
              (proposal_getOne this platformID' proposalId))
        (\<lambda>proposal_opt.
      case proposal_opt of
        None \<Rightarrow> throw (Error ''Proposal not found'')
      | Some proposal \<Rightarrow>
      if \<not> truthy (proposal_cid proposal) then throw (Error ''Proposal cid not found'')
      else
      let sellerId = seller_id proposal;
          cid' = the (proposal_cid proposal);
          createArgs = [ParseInt serviceId, ParseInt sellerId, Str metaEvidenceCid, Str cid']
      in
      bind (getProtocolAndPlatformsFees this (service_platform_id proposal) (platform_id proposal))
        (\<lambda>protocolAndPlatformsFees.
      case protocolAndPlatformsFees of
        None \<Rightarrow> throw (Error ''Unable to fetch fees'')
      | Some fees \<Rightarrow>
      bind (fee_rates fees)
        (\<lambda>(originServiceFeeRate, originValidatedProposalFeeRate, protocolEscrowFeeRate).
      bind ([], calculate (rateAmount proposal) originServiceFeeRate
                  originValidatedProposalFeeRate protocolEscrowFeeRate)
        (\<lambda>approvalAmount.
      bind
        (if rateToken_address proposal = RateToken_NATIVE then
           await (WriteContract ''talentLayerEscrow'' ''createTransaction'' createArgs
                    (Some approvalAmount))
             (writeContract this ''talentLayerEscrow'' ''createTransaction'' createArgs
                (Some approvalAmount))
         else
           bind (await (CheckAllowance (rateToken_address proposal))
                   (erc20_checkAllowance this (rateToken_address proposal)))
             (\<lambda>allowance.
           bind (if allowance < approvalAmount
                 then request_allowance this (rateToken_address proposal) approvalAmount
                 else return ())
             (\<lambda>_.
           await (WriteContract ''talentLayerEscrow'' ''createTransaction'' createArgs None)
             (writeContract this ''talentLayerEscrow'' ''createTransaction'' createArgs None))))
        (\<lambda>tx'.
      if truthy tx' then return \<lparr>tx = the tx', cid = cid'\<rparr>
      else throw (Error ''Error creating Transaction'')))))))"

text \<open>\<^verbatim>\<open>service?.transaction?.id\<close>.\<close>

definition transactionId_of :: "Service option \<Rightarrow> string option" where
  "transactionId_of service =
     (case service of
        None \<Rightarrow> None
      | Some s \<Rightarrow> (case transaction s of None \<Rightarrow> None | Some t \<Rightarrow> transaction_id t))"

text \<open>\<^verbatim>\<open>Escrow.release\<close>, with both of its checks of the transaction identifier.\<close>

definition release :: "Escrow \<Rightarrow> string \<Rightarrow> int \<Rightarrow> int \<Rightarrow> int option \<Rightarrow> string option io" where
  "release this serviceId amount userId platformId =
     (let platformID' = or_default platformId (platformID this) in
      bind (await (ServiceGetOne platformID' serviceId) (service_getOne this platformID' serviceId))
        (\<lambda>service.
      let transactionId = transactionId_of service in
      if \<not> truthy transactionId then throw (Error ''service transaction not found'')
      else if \<not> truthy transactionId then throw (Error ''Transaction Id not found for service'')
      else
        await (WriteContract ''talentLayerEscrow'' ''release''
                 [Num userId, ParseInt (the transactionId), BigIntToString amount] None)
          (writeContract this ''talentLayerEscrow'' ''release''
             [Num userId, ParseInt (the transactionId), BigIntToString amount] None)))"

text \<open>\<^verbatim>\<open>Escrow.reimburse\<close>.\<close>

definition reimburse :: "Escrow \<Rightarrow> string \<Rightarrow> int \<Rightarrow> int \<Rightarrow> int option \<Rightarrow> string option io" where
  "reimburse this serviceId amount userId platformId =
     (let platformID' = or_default platformId (platformID this) in
      bind (await (ServiceGetOne platformID' serviceId) (service_getOne this platformID' serviceId))
        (\<lambda>service.
      let transactionId = transactionId_of service in
      if \<not> truthy transactionId then throw (Error ''service transaction not found'')
      else if \<not> truthy transactionId then throw (Error ''Transaction Id not found for service'')
      else
        await (WriteContract ''talentLayerEscrow'' ''reimburse''
                 [Num userId, ParseInt (the transactionId), BigIntToString amount] None)
          (writeContract this ''talentLayerEscrow'' ''reimburse''
             [Num userId, ParseInt (the transactionId), BigIntToString amount] None)))"

text \<open>The calls of a trace that write to the ledger.\<close>

fun is_write :: "call \<Rightarrow> bool" where
  "is_write (Erc20Approve _ _) = True"
| "is_write (WriteContract _ _ _ _) = True"
| "is_write _ = False"

fun is_fee_query :: "call \<Rightarrow> bool" where
  "is_fee_query (GetProtocolAndPlatformsFees _ _) = True"
| "is_fee_query _ = False"

fun is_allowance_call :: "call \<Rightarrow> bool" where
  "is_allowance_call (CheckAllowance _) = True"
| "is_allowance_call (Erc20Approve _ _) = True"
| "is_allowance_call (WaitForTransactionReceipt _) = True"
| "is_allowance_call _ = False"

fun is_erc20_approve :: "call \<Rightarrow> bool" where
  "is_erc20_approve (Erc20Approve _ _) = True"
| "is_erc20_approve _ = False"

section \<open>Chain configuration\<close>

datatype NetworkEnum = AMOY | MUMBAI | IEXEC | POLYGON | FUJI | LOCAL

record Contract =
  contract_address :: string

record EscrowConfig =
  adminFee :: string
  adminWallet :: string
  timeoutPayment :: nat

record IToken =
  token_address :: string
  token_symbol :: string
  token_name :: string
  token_decimals :: nat

text \<open>
  \<^verbatim>\<open>Config\<close>. The \<^verbatim>\<open>contracts\<close> and \<^verbatim>\<open>tokens\<close> objects are association lists
  in the order of the source; the interface descriptor (\<^verbatim>\<open>abi\<close>) of a contract is
  left out.
\<close>

record Config =
  networkId :: NetworkEnum
  subgraphUrl :: string
  contracts :: "(string \<times> Contract) list"
  escrowConfig :: EscrowConfig
  tokens :: "(string \<times> IToken) list"

text \<open>
  Modelled from the spec: \<^verbatim>\<open>AddressZero\<close> of \<^verbatim>\<open>constants\<close>, the zero address.
\<close>

definition AddressZero :: string where
  "AddressZero = ''0x0000000000000000000000000000000000000000''"

definition amoy :: Config where
  "amoy = \<lparr>
     networkId = AMOY,
     subgraphUrl = ''https://api.studio.thegraph.com/query/41228/tl-graph-amoy/v0.0.1'',
     contracts = [
       (''talentLayerId'', \<lparr>contract_address = ''0xBe0d91F2371e23b9A26Fb8949E041A65dD0aDe83''\<rparr>),
       (''talentLayerService'', \<lparr>contract_address = ''0x5394632Fe8044BF3c3eF6fBD30d1121d5d796542''\<rparr>),
       (''talentLayerReview'', \<lparr>contract_address = ''0x194D3a30Ad6274F169c78D64A538a8F472c47819''\<rparr>),
       (''talentLayerEscrow'', \<lparr>contract_address = ''0x466e65231DBe87b184c7cEeE8A319b4aB117915B''\<rparr>),
       (''talentLayerPlatformId'', \<lparr>contract_address = ''0xbE56916C64f80040d46Ea5B32E1e851cE752cD3f''\<rparr>),
       (''talentLayerArbitrator'', \<lparr>contract_address = ''0x0F39E0ffEaBE0C100768F16988F0c9405428E2D8''\<rparr>)
     ],
     escrowConfig = \<lparr>adminFee = ''0'', adminWallet = ''0xC01FcDfDE3B2ABA1eab76731493C617FfAED2F10'',
                     timeoutPayment = 3600 * 24 * 7\<rparr>,
     tokens = [
       (AddressZero,
        \<lparr>token_address = AddressZero,
         token_symbol = ''MATIC'', token_name = ''Matic'', token_decimals = 18\<rparr>),
       (''0xe6b8a5CF854791412c1f6EFC7CAf629f5Df1c747'',
        \<lparr>token_address = ''0xe6b8a5CF854791412c1f6EFC7CAf629f5Df1c747'',
         token_symbol = ''USDC'', token_name = ''USDC Stablecoin'', token_decimals = 6\<rparr>)
     ]\<rparr>"

definition mumbai :: Config where
  "mumbai = \<lparr>
     networkId = MUMBAI,
     subgraphUrl = ''https://api.thegraph.com/subgraphs/name/talentlayer/talent-layer-mumbai'',
     contracts = [
       (''talentLayerId'', \<lparr>contract_address = ''0x3F87289e6Ec2D05C32d8A74CCfb30773fF549306''\<rparr>),
       (''talentLayerService'', \<lparr>contract_address = ''0x27ED516dC1df64b4c1517A64aa2Bb72a434a5A6D''\<rparr>),
       (''talentLayerReview'', \<lparr>contract_address = ''0x050F59E1871d3B7ca97e6fb9DCE64b3818b14B18''\<rparr>),
       (''talentLayerEscrow'', \<lparr>contract_address = ''0x4bE920eC3e8552292B2147480111063E0dc36872''\<rparr>),
       (''talentLayerPlatformId'', \<lparr>contract_address = ''0xEFD8dbC421380Ee04BAdB69216a0FD97F64CbFD4''\<rparr>),
       (''talentLayerArbitrator'', \<lparr>contract_address = ''0x2CA01a0058cfB3cc4755a7773881ea88eCfBba7C''\<rparr>)
     ],
     escrowConfig = \<lparr>adminFee = ''0'', adminWallet = ''0xC01FcDfDE3B2ABA1eab76731493C617FfAED2F10'',
                     timeoutPayment = 3600 * 24 * 7\<rparr>,
     tokens = [
       (AddressZero,
        \<lparr>token_address = AddressZero,
         token_symbol = ''MATIC'', token_name = ''Matic'', token_decimals = 18\<rparr>),
       (''0xe6b8a5CF854791412c1f6EFC7CAf629f5Df1c747'',
        \<lparr>token_address = ''0xe6b8a5CF854791412c1f6EFC7CAf629f5Df1c747'',
         token_symbol = ''USDC'', token_name = ''USDC Stablecoin'', token_decimals = 6\<rparr>)
     ]\<rparr>"

definition iexec :: Config where
  "iexec = \<lparr>
     networkId = IEXEC,
     subgraphUrl = ''https://thegraph-sandbox.iex.ec/subgraphs/name/users/talentLayer'',
     contracts = [
       (''talentLayerId'', \<lparr>contract_address = ''0xC51537E03f56650C63A9Feca4cCb5a039c77c822''\<rparr>),
       (''talentLayerService'', \<lparr>contract_address = ''0x45E8F869Fd316741A9316f39bF09AD03Df88496f''\<rparr>),
       (''talentLayerReview'', \<lparr>contract_address = ''0x6A5BF452108DA389B7B38284E871f538671Ad375''\<rparr>),
       (''talentLayerEscrow'', \<lparr>contract_address = ''0x7A534501a6e63448EBC691f27B27B76d4F9b7E17''\<rparr>),
       (''talentLayerPlatformId'', \<lparr>contract_address = ''0x05D8A2E01EB06c284ECBae607A2d0c2BE946Bf49''\<rparr>),
       (''talentLayerArbitrator'', \<lparr>contract_address = ''0x24cEd045b50cF811862B1c33dC6B1fbC8358F521''\<rparr>)
     ],
     escrowConfig = \<lparr>adminFee = ''0'', adminWallet = ''0x2E6f7222d4d7A71B05E7C35389d23C3dB400851f'',
                     timeoutPayment = 3600 * 24 * 7\<rparr>,
     tokens = [
       (''0x0000000000000000000000000000000000000000'',
        \<lparr>token_address = ''0x0000000000000000000000000000000000000000'',
         token_symbol = ''RLC'', token_name = ''iExec RLC'', token_decimals = 18\<rparr>),
       (''0xe62C28709E4F19Bae592a716b891A9B76bf897E4'',
        \<lparr>token_address = ''0xe62C28709E4F19Bae592a716b891A9B76bf897E4'',
         token_symbol = ''SERC20'', token_name = ''SimpleERC20'', token_decimals = 18\<rparr>)
     ]\<rparr>"

definition polygon :: Config where
  "polygon = \<lparr>
     networkId = POLYGON,
     subgraphUrl = ''https://api.thegraph.com/subgraphs/name/talentlayer/talentlayer-polygon'',
     contracts = [
       (''talentLayerId'', \<lparr>contract_address = ''0xD7D1B2b0A665F03618cb9a45Aa3070f789cb91f2''\<rparr>),
       (''talentLayerService'', \<lparr>contract_address = ''0xae8Bba1a403816568230d92099ccB87f41BbcA78''\<rparr>),
       (''talentLayerReview'', \<lparr>contract_address = ''0x7bBC20c8Fcb75A126810161DFB1511f6D3B1f2bE''\<rparr>),
       (''talentLayerEscrow'', \<lparr>contract_address = ''0x21C716673897f4a2A3c12053f3973F51Ce7b0cf6''\<rparr>),
       (''talentLayerPlatformId'', \<lparr>contract_address = ''0x09FF07297d48eD9aD870caCE4b33BF30869C1D17''\<rparr>),
       (''talentLayerArbitrator'', \<lparr>contract_address = ''0x4502E695A747F1b382a16D6C8AE3FD94DA78e7a0''\<rparr>)
     ],
     escrowConfig = \<lparr>adminFee = ''0'', adminWallet = ''0x2E6f7222d4d7A71B05E7C35389d23C3dB400851f'',
                     timeoutPayment = 3600 * 24 * 7\<rparr>,
     tokens = [
       (''0x0000000000000000000000000000000000000000'',
        \<lparr>token_address = ''0x0000000000000000000000000000000000000000'',
         token_symbol = ''MATIC'', token_name = ''Matic'', token_decimals = 18\<rparr>),
       (''0x2791Bca1f2de4661ED88A30C99A7a9449Aa84174'',
        \<lparr>token_address = ''0x2791Bca1f2de4661ED88A30C99A7a9449Aa84174'',
         token_symbol = ''USDC'', token_name = ''USDC'', token_decimals = 6\<rparr>),
       (''0x7ceB23fD6bC0adD59E62ac25578270cFf1b9f619'',
        \<lparr>token_address = ''0x7ceB23fD6bC0adD59E62ac25578270cFf1b9f619'',
         token_symbol = ''WETH'', token_name = ''WETH'', token_decimals = 18\<rparr>)
     ]\<rparr>"

definition fuji :: Config where
  "fuji = \<lparr>
     networkId = FUJI,
     subgraphUrl = ''https://api.studio.thegraph.com/query/41228/tl-graph-fuji/version/latest'',
     contracts = [
       (''talentLayerId'', \<lparr>contract_address = ''0x11BF027d41011a050c77E3BE7fB1942500C29928''\<rparr>),
       (''talentLayerService'', \<lparr>contract_address = ''0x037a42146f7803Ac85Eeb201A8aab483E10c3E1A''\<rparr>),
       (''talentLayerReview'', \<lparr>contract_address = ''0x5b1e55ca26f8128155f35a0c5804e292B1b66bb7''\<rparr>),
       (''talentLayerEscrow'', \<lparr>contract_address = ''0x2D11f75E4af6626bA457532429D5FA6bF18ac011''\<rparr>),
       (''talentLayerPlatformId'', \<lparr>contract_address = ''0x5582d6493449a9c8aE353715eaE55794056dBF19''\<rparr>),
       (''talentLayerArbitrator'', \<lparr>contract_address = ''0x0000000000000000000000000000000000000000''\<rparr>)
     ],
     escrowConfig = \<lparr>adminFee = ''0'', adminWallet = ''0x754edfB906252B304f89c59c61f4368028bdcE6c'',
                     timeoutPayment = 3600 * 24 * 7\<rparr>,
     tokens = [
       (''0x0000000000000000000000000000000000000000'',
        \<lparr>token_address = ''0x0000000000000000000000000000000000000000'',
         token_symbol = ''AVAX'', token_name = ''Avax'', token_decimals = 18\<rparr>),
       (''0xAF82969ECF299c1f1Bb5e1D12dDAcc9027431160'',
        \<lparr>token_address = ''0xAF82969ECF299c1f1Bb5e1D12dDAcc9027431160'',
         token_symbol = ''USDC'', token_name = ''USDC Stablecoin'', token_decimals = 6\<rparr>)
     ]\<rparr>"

text \<open>
  \<^verbatim>\<open>chains\<close>: an object keyed by the numeric values of \<^verbatim>\<open>NetworkEnum\<close>, built in
  the order of the source (a later entry of an object literal replaces an earlier one with
  the same key). The numeric value of each member is the parameter \<open>val\<close>, so that
  what is proved of the lookup holds for every assignment of values to the six members
  that \<^verbatim>\<open>config\<close> names.
\<close>

definition chains :: "(NetworkEnum \<Rightarrow> int) \<Rightarrow> int \<Rightarrow> Config option" where
  "chains val =
     [val AMOY \<mapsto> amoy, val MUMBAI \<mapsto> mumbai, val IEXEC \<mapsto> iexec,
      val POLYGON \<mapsto> polygon, val FUJI \<mapsto> fuji, val LOCAL \<mapsto> mumbai]"

text \<open>
  \<^verbatim>\<open>getChainConfig\<close>: the property read \<^verbatim>\<open>chains[networkId]\<close>, on the number that
  arrives at run time. The read of a key that the object does not have gives
  \<^verbatim>\<open>undefined\<close> (\<open>None\<close>); no branch of the function throws.
\<close>

definition getChainConfig :: "(NetworkEnum \<Rightarrow> int) \<Rightarrow> int \<Rightarrow> error + Config option" where
  "getChainConfig val networkId' = Inr (chains val networkId')"

text \<open>
  The values of the enum used at concrete inputs: \<^verbatim>\<open>LOCAL\<close> and \<^verbatim>\<open>MUMBAI\<close> as
  \<^verbatim>\<open>types\<close> declares them, \<^verbatim>\<open>AMOY\<close> and \<^verbatim>\<open>IEXEC\<close> as the chain identifiers
  that \<^verbatim>\<open>blockchain-bindings/chains\<close> defines for them, \<^verbatim>\<open>POLYGON\<close> and
  \<^verbatim>\<open>FUJI\<close> as the chain identifiers of those networks.
\<close>

fun NetworkEnum_value :: "NetworkEnum \<Rightarrow> int" where
  "NetworkEnum_value LOCAL = 1337"
| "NetworkEnum_value MUMBAI = 80001"
| "NetworkEnum_value AMOY = 80002"
| "NetworkEnum_value IEXEC = 134"
| "NetworkEnum_value POLYGON = 137"
| "NetworkEnum_value FUJI = 43113"

section \<open>Platform\<close>

text \<open>\<^verbatim>\<open>zeroAddress\<close> of the viem library.\<close>

definition zeroAddress :: string where
  "zeroAddress = ''0x0000000000000000000000000000000000000000''"

record Arbitrator =
  arbitrator_address :: string
  arbitrator_name :: string

text \<open>
  The \<^verbatim>\<open>Platform\<close> object: its default platform, the optional custom configuration
  (\<^verbatim>\<open>customConfig.contractConfig\<close>), the chain of its wallet and the behaviour of the
  wallet's \<^verbatim>\<open>writeContract\<close>.
\<close>

record Platform =
  platform_platformID :: int
  customConfig :: "Config option"
  wallet_chainId :: int
  wallet_writeContract :: "string \<Rightarrow> string \<Rightarrow> arg list \<Rightarrow> int option \<Rightarrow> error + string option"

text \<open>
  \<^verbatim>\<open>String.prototype.toLowerCase\<close> on the characters of an address: the letters
  \<^verbatim>\<open>A\<close> to \<^verbatim>\<open>Z\<close> become \<^verbatim>\<open>a\<close> to \<^verbatim>\<open>z\<close>, every other character is
  kept. An address is \<^verbatim>\<open>0x\<close> followed by hexadecimal digits, so no letter outside
  the ASCII range occurs in it.
\<close>

definition toLowerCase_char :: "char \<Rightarrow> char" where
  "toLowerCase_char c =
     (case map_of (zip ''ABCDEFGHIJKLMNOPQRSTUVWXYZ'' ''abcdefghijklmnopqrstuvwxyz'') c of
        Some l \<Rightarrow> l
      | None \<Rightarrow> c)"

definition toLowerCase :: "string \<Rightarrow> string" where
  "toLowerCase s = map toLowerCase_char s"

text \<open>
  \<^verbatim>\<open>Platform.getArbitrators\<close>. Reading \<^verbatim>\<open>contracts\<close> of an absent configuration,
  or \<^verbatim>\<open>address\<close> of an absent contract, raises a \<^verbatim>\<open>TypeError\<close>.
\<close>

definition getArbitrators :: "(NetworkEnum \<Rightarrow> int) \<Rightarrow> Platform \<Rightarrow> int \<Rightarrow> error + Arbitrator list" where
  "getArbitrators val this chainId =
     (case (case customConfig this of
              Some contractConfig \<Rightarrow> Inr (Some contractConfig)
            | None \<Rightarrow> getChainConfig val chainId) of
        Inl e \<Rightarrow> Inl e
      | Inr None \<Rightarrow> Inl TypeError
      | Inr (Some chainConfig) \<Rightarrow>
          (case map_of (contracts chainConfig) ''talentLayerArbitrator'' of
             None \<Rightarrow> Inl TypeError
           | Some contract \<Rightarrow>
               Inr [\<lparr>arbitrator_address = zeroAddress, arbitrator_name = ''None''\<rparr>,
                    \<lparr>arbitrator_address = contract_address contract,
                     arbitrator_name = ''TalentLayer Arbitrator''\<rparr>]))"

text \<open>\<^verbatim>\<open>Platform.updateArbitrator\<close>.\<close>

definition updateArbitrator :: "(NetworkEnum \<Rightarrow> int) \<Rightarrow> Platform \<Rightarrow> string \<Rightarrow> int option
    \<Rightarrow> string option io" where
  "updateArbitrator val this address platformId =
     (let platformID' = or_default platformId (platform_platformID this) in
      bind ([], getArbitrators val this (wallet_chainId this))
        (\<lambda>allowedArbitrators.
      let allowedArbitratorAddresses =
            map (\<lambda>arbitrator. toLowerCase (arbitrator_address arbitrator)) allowedArbitrators
      in
      if toLowerCase address \<notin> set allowedArbitratorAddresses
      then throw (Error (''Invalid Arbitrator: '' @ address))
      else
        await (WriteContract ''talentLayerPlatformId'' ''updateArbitrator''
                 [Num platformID', Str address, Str ''''] None)
          (wallet_writeContract this ''talentLayerPlatformId'' ''updateArbitrator''
             [Num platformID', Str address, Str ''''] None)))"

section \<open>Concrete inputs\<close>

text \<open>
  A proposal of one million units paid in a given token, a fee schedule of 500, 200 and
  300 basis points, an \<^verbatim>\<open>Escrow\<close> whose collaborators answer with them, and a
  \<^verbatim>\<open>Platform\<close> on a given chain: the inputs at which the theorems below are
  instantiated.
\<close>

definition example_proposal :: "string \<Rightarrow> Proposal" where
  "example_proposal token =
     \<lparr>proposal_cid = Some ''QmProposal'', seller_id = ''2'', service_platform_id = ''1'',
      platform_id = ''3'', rateAmount = 1000000, rateToken_address = token\<rparr>"

definition example_fees :: Fees where
  "example_fees = \<lparr>servicePlatform = Some 500, proposalPlatform = Some 200, protocols = [300]\<rparr>"

definition example_escrow :: "Proposal \<Rightarrow> int \<Rightarrow> error + string \<Rightarrow> error + string \<Rightarrow> Escrow" where
  "example_escrow proposal allowance approval receipt =
     \<lparr>platformID = 1,
      proposal_getOne = (\<lambda>_ _. Inr (Some proposal)),
      service_getOne = (\<lambda>_ _. Inr None),
      graphQlClient_fees = (\<lambda>_ _. Inr (Some example_fees)),
      erc20_checkAllowance = (\<lambda>_. Inr allowance),
      erc20_approve = (\<lambda>_ _. approval),
      waitForTransactionReceipt = (\<lambda>_. receipt),
      writeContract = (\<lambda>_ _ _ _. Inr (Some ''0xescrowtx''))\<rparr>"

definition USDC :: string where
  "USDC = ''0xe6b8a5CF854791412c1f6EFC7CAf629f5Df1c747''"

definition example_platform :: "Config option \<Rightarrow> int \<Rightarrow> Platform" where
  "example_platform custom chainId =
     \<lparr>platform_platformID = 1, customConfig = custom, wallet_chainId = chainId,
      wallet_writeContract = (\<lambda>_ _ _ _. Inr (Some ''0xplatformtx''))\<rparr>"

section \<open>Laws of the effect combinators\<close>

lemma bind_await_Inr: "bind (await c (Inr x)) f = (c # fst (f x), snd (f x))"
  by (simp add: bind_def await_def split: prod.splits)

lemma bind_await_Inl: "bind (await c (Inl e)) f = ([c], Inl e)"
  by (simp add: bind_def await_def)

lemma bind_pure_Inr: "bind ([], Inr x) f = f x"
  by (simp add: bind_def split: prod.splits)

lemma bind_pure_Inl: "bind ([], Inl e) f = ([], Inl e)"
  by (simp add: bind_def)

lemma bind_return: "bind (return x) f = f x"
  by (simp add: return_def bind_pure_Inr)

lemma bind_throw: "bind (throw e) f = throw e"
  by (simp add: throw_def bind_pure_Inl)

lemma bind_Inl: "bind (t, Inl e) f = (t, Inl e)"
  by (simp add: bind_def)

lemma bind_Inr: "bind (t, Inr x) f = (t @ fst (f x), snd (f x))"
  by (simp add: bind_def split: prod.splits)

lemmas io_simps =
  bind_await_Inr bind_await_Inl bind_pure_Inr bind_pure_Inl bind_return bind_throw
  bind_Inl bind_Inr

section \<open>The steps of the approval\<close>

text \<open>
  Reading the fee rates either raises a \<^verbatim>\<open>TypeError\<close> or returns three rates. The
  ERC-20 approval makes one or two calls and ends in success or in the one error of its
  \<^verbatim>\<open>catch\<close> block. Once the proposal, the fees, the amount and the allowance are
  known, \<^verbatim>\<open>approve\<close> on an ERC-20 token is the sequence of its remaining steps.
\<close>

lemma fee_rates_cases:
  "fee_rates fees = throw TypeError \<or> (\<exists>r1 r2 r3. fee_rates fees = return (r1, r2, r3))"
  by (auto simp: fee_rates_def split: option.splits list.splits)

lemma request_allowance_cases:
  "request_allowance this token a =
     (case erc20_approve this token a of
        Inl e \<Rightarrow> ([Erc20Approve token a], Inl (Error ''Approval transaction failed with error''))
      | Inr h \<Rightarrow>
          (if waitForTransactionReceipt this h = Inr ''success''
           then ([Erc20Approve token a, WaitForTransactionReceipt h], Inr ())
           else ([Erc20Approve token a, WaitForTransactionReceipt h],
                 Inl (Error ''Approval transaction failed with error''))))"
proof (cases "erc20_approve this token a")
  case (Inl e)
  then show ?thesis
    by (simp add: request_allowance_def try_catch_def io_simps throw_def)
next
  case (Inr h)
  then show ?thesis
    by (cases "waitForTransactionReceipt this h")
       (simp_all add: request_allowance_def try_catch_def io_simps throw_def return_def)
qed

lemma approve_erc20_resolved:
  assumes "proposal_getOne this (or_default platformId (platformID this)) proposalId
             = Inr (Some proposal)"
    and "truthy (proposal_cid proposal)"
    and "rateToken_address proposal \<noteq> RateToken_NATIVE"
    and "graphQlClient_fees this (service_platform_id proposal) (platform_id proposal)
           = Inr (Some fees)"
    and "fee_rates fees = return (r1, r2, r3)"
    and "calculate (rateAmount proposal) r1 r2 r3 = Inr approvalAmount"
    and "erc20_checkAllowance this (rateToken_address proposal) = Inr allowance"
  shows "approve calculate this serviceId proposalId metaEvidenceCid platformId =
           bind (await (ProposalGetOne (or_default platformId (platformID this)) proposalId)
                   (Inr ()))
             (\<lambda>_. bind (await (GetProtocolAndPlatformsFees (service_platform_id proposal)
                                 (platform_id proposal)) (Inr ()))
             (\<lambda>_. bind (await (CheckAllowance (rateToken_address proposal)) (Inr ()))
             (\<lambda>_. bind (if allowance < approvalAmount
                         then request_allowance this (rateToken_address proposal) approvalAmount
                         else return ())
             (\<lambda>_. bind (await (WriteContract ''talentLayerEscrow'' ''createTransaction''
                                 [ParseInt serviceId, ParseInt (seller_id proposal),
                                  Str metaEvidenceCid, Str (the (proposal_cid proposal))] None)
                           (writeContract this ''talentLayerEscrow'' ''createTransaction''
                                 [ParseInt serviceId, ParseInt (seller_id proposal),
                                  Str metaEvidenceCid, Str (the (proposal_cid proposal))] None))
             (\<lambda>tx'. if truthy tx'
                     then return \<lparr>tx = the tx', cid = the (proposal_cid proposal)\<rparr>
                     else throw (Error ''Error creating Transaction''))))))"
  using assms
  by (simp add: approve_def Let_def io_simps getProtocolAndPlatformsFees_def)
     (simp add: bind_def split: prod.splits sum.splits)

section \<open>Facts about the concrete inputs\<close>

lemmas example_defs =
  example_escrow_def example_proposal_def example_fees_def USDC_def RateToken_NATIVE_def

lemma example_fee_rates: "fee_rates example_fees = return (500, 200, 300)"
  by (simp add: fee_rates_def example_fees_def)

lemma example_amount:
  "calculateApprovalAmount (rateAmount (example_proposal token)) 500 200 300 = Inr 1100000"
  by (simp add: calculateApprovalAmount_def computeApprovalAmount_def FEE_RATE_DIVIDER_def
        example_proposal_def)

lemma example_cid: "proposal_cid (example_proposal token) = Some ''QmProposal''"
  by (simp add: example_proposal_def)

lemma USDC_not_native: "rateToken_address (example_proposal USDC) \<noteq> RateToken_NATIVE"
  by (simp add: example_defs)

lemma NetworkEnum_value_inj: "inj NetworkEnum_value"
proof (rule injI)
  fix a b assume "NetworkEnum_value a = NetworkEnum_value b"
  then show "a = b" by (cases a; cases b) simp_all
qed

lemma not_NetworkEnum_value: "k \<notin> {1337, 80001, 80002, 134, 137, 43113} \<Longrightarrow> k \<notin> range NetworkEnum_value"
proof
  assume k: "k \<notin> {1337, 80001, 80002, 134, 137, 43113}" and "k \<in> range NetworkEnum_value"
  then obtain n where "k = NetworkEnum_value n" by blast
  then show False using k by (cases n) simp_all
qed

lemma mumbai_arbitrator:
  "map_of (contracts mumbai) ''talentLayerArbitrator''
     = Some \<lparr>contract_address = ''0x2CA01a0058cfB3cc4755a7773881ea88eCfBba7C''\<rparr>"
  by (simp add: mumbai_def)

lemma chains_mumbai: "chains NetworkEnum_value 80001 = Some mumbai"
  by (simp add: chains_def)

lemma chains_name_arbitrator:
  "\<exists>chainConfig contract. chains val (val n) = Some chainConfig
     \<and> map_of (contracts chainConfig) ''talentLayerArbitrator'' = Some contract"
proof -
  have "\<exists>contract. map_of (contracts c) ''talentLayerArbitrator'' = Some contract"
    if "c \<in> {amoy, mumbai, iexec, polygon, fuji}" for c
    using that by (auto simp: amoy_def mumbai_def iexec_def polygon_def fuji_def)
  moreover have "\<exists>c \<in> {amoy, mumbai, iexec, polygon, fuji}. chains val (val n) = Some c"
    by (cases n) (simp_all add: chains_def)
  ultimately show ?thesis by blast
qed

section \<open>The approval amount\<close>

text \<open>
  C2. For a non-negative rate amount, a positive divider and fee rates between zero and
  the divider, the calculator returns the rate amount plus the three fee components, each
  the floor of \<open>amount * rate / divider\<close> taken on the same base amount, and the total
  does not decrease when any one fee rate is raised.
\<close>

theorem computeApprovalAmount_exact_monotone:
  assumes "0 \<le> amount" and "0 < divider"
    and "0 \<le> r1" and "r1 \<le> divider"
    and "0 \<le> r2" and "r2 \<le> divider"
    and "0 \<le> r3" and "r3 \<le> divider"
  shows "computeApprovalAmount amount r1 r2 r3 divider =
           Inr (amount
                + \<lfloor>real_of_int (amount * r1) / real_of_int divider\<rfloor>
                + \<lfloor>real_of_int (amount * r2) / real_of_int divider\<rfloor>
                + \<lfloor>real_of_int (amount * r3) / real_of_int divider\<rfloor>)
         \<and> (\<forall>r1'. r1 \<le> r1' \<longrightarrow>
               (\<exists>x y. computeApprovalAmount amount r1 r2 r3 divider = Inr x
                    \<and> computeApprovalAmount amount r1' r2 r3 divider = Inr y \<and> x \<le> y))
         \<and> (\<forall>r2'. r2 \<le> r2' \<longrightarrow>
               (\<exists>x y. computeApprovalAmount amount r1 r2 r3 divider = Inr x
                    \<and> computeApprovalAmount amount r1 r2' r3 divider = Inr y \<and> x \<le> y))
         \<and> (\<forall>r3'. r3 \<le> r3' \<longrightarrow>
               (\<exists>x y. computeApprovalAmount amount r1 r2 r3 divider = Inr x
                    \<and> computeApprovalAmount amount r1 r2 r3' divider = Inr y \<and> x \<le> y))"
proof -
  have mono: "amount * r div divider \<le> amount * r' div divider" if "r \<le> r'" for r r'
    using that assms(1,2) by (intro zdiv_mono1 mult_left_mono) auto
  have exact: "computeApprovalAmount amount r1 r2 r3 divider =
           Inr (amount
                + \<lfloor>real_of_int (amount * r1) / real_of_int divider\<rfloor>
                + \<lfloor>real_of_int (amount * r2) / real_of_int divider\<rfloor>
                + \<lfloor>real_of_int (amount * r3) / real_of_int divider\<rfloor>)"
    using assms
    by (simp add: computeApprovalAmount_def floor_divide_of_int_eq del: of_int_mult)
  have m1: "\<exists>x y. computeApprovalAmount amount r1 r2 r3 divider = Inr x
              \<and> computeApprovalAmount amount r1' r2 r3 divider = Inr y \<and> x \<le> y"
    if "r1 \<le> r1'" for r1'
    using that assms mono[OF that] by (simp add: computeApprovalAmount_def)
  have m2: "\<exists>x y. computeApprovalAmount amount r1 r2 r3 divider = Inr x
              \<and> computeApprovalAmount amount r1 r2' r3 divider = Inr y \<and> x \<le> y"
    if "r2 \<le> r2'" for r2'
    using that assms mono[OF that] by (simp add: computeApprovalAmount_def)
  have m3: "\<exists>x y. computeApprovalAmount amount r1 r2 r3 divider = Inr x
              \<and> computeApprovalAmount amount r1 r2 r3' divider = Inr y \<and> x \<le> y"
    if "r3 \<le> r3'" for r3'
    using that assms mono[OF that] by (simp add: computeApprovalAmount_def)
  show ?thesis using exact m1 m2 m3 by blast
qed

text \<open>
  C2 at the example of the specification, and at an amount where every component is
  truncated.
\<close>

theorem computeApprovalAmount_exact_monotone_witness:
  "computeApprovalAmount 1000000 500 200 300 10000 = Inr 1100000
   \<and> computeApprovalAmount 999 333 1 9999 10000 = Inr (999 + 33 + 0 + 998)"
proof -
  have "computeApprovalAmount 1000000 500 200 300 10000 =
          Inr (1000000 + \<lfloor>real_of_int (1000000 * 500) / real_of_int 10000\<rfloor>
               + \<lfloor>real_of_int (1000000 * 200) / real_of_int 10000\<rfloor>
               + \<lfloor>real_of_int (1000000 * 300) / real_of_int 10000\<rfloor>)"
    using computeApprovalAmount_exact_monotone [of 1000000 10000 500 200 300] by simp
  moreover have "computeApprovalAmount 999 333 1 9999 10000 =
          Inr (999 + \<lfloor>real_of_int (999 * 333) / real_of_int 10000\<rfloor>
               + \<lfloor>real_of_int (999 * 1) / real_of_int 10000\<rfloor>
               + \<lfloor>real_of_int (999 * 9999) / real_of_int 10000\<rfloor>)"
    using computeApprovalAmount_exact_monotone [of 999 10000 333 1 9999] by simp
  ultimately show ?thesis
    by (simp add: floor_divide_of_int_eq del: of_int_mult of_int_numeral)
qed

section \<open>Escrow approval\<close>

text \<open>
  C1, as stated, fails: for a proposal paid in the native currency \<^verbatim>\<open>approve\<close>
  queries the fee schedule, and the amount it sends with the escrow creation is the
  approval amount (1100000), not the rate amount of the proposal (1000000).
\<close>

theorem approve_native_counterexample:
  "rateToken_address (example_proposal RateToken_NATIVE) = RateToken_NATIVE
   \<and> rateAmount (example_proposal RateToken_NATIVE) = 1000000
   \<and> approve calculateApprovalAmount (example_escrow (example_proposal RateToken_NATIVE) 0 (Inr ''0xa'')
                (Inr ''success''))
        ''7'' ''11'' ''QmMeta'' None =
      ([ProposalGetOne 1 ''11'',
        GetProtocolAndPlatformsFees ''1'' ''3'',
        WriteContract ''talentLayerEscrow'' ''createTransaction''
          [ParseInt ''7'', ParseInt ''2'', Str ''QmMeta'', Str ''QmProposal''] (Some 1100000)],
       Inr \<lparr>tx = ''0xescrowtx'', cid = ''QmProposal''\<rparr>)"
  by (simp add: approve_def Let_def io_simps getProtocolAndPlatformsFees_def
        example_escrow_def example_fee_rates example_amount return_def)
     (simp add: example_proposal_def)

text \<open>
  C1, amended. For a fetched proposal that has a content identifier and whose rate
  token is the native-currency sentinel, \<^verbatim>\<open>approve\<close> never checks the allowance,
  never submits an ERC-20 approval and never waits for a receipt; it queries the fee
  schedule, exactly once and whatever the answer; and when the fees resolve and the
  calculator returns an approval amount, its calls are exactly the proposal lookup, the
  fee query and the escrow creation with that approval amount as the payment.
\<close>

theorem approve_native:
  assumes "proposal_getOne this (or_default platformId (platformID this)) proposalId
             = Inr (Some proposal)"
    and "truthy (proposal_cid proposal)"
    and "rateToken_address proposal = RateToken_NATIVE"
  shows "filter is_allowance_call
           (fst (approve calculate this serviceId proposalId metaEvidenceCid platformId)) = []
         \<and> filter is_fee_query
             (fst (approve calculate this serviceId proposalId metaEvidenceCid platformId)) =
             [GetProtocolAndPlatformsFees (service_platform_id proposal) (platform_id proposal)]
         \<and> (\<forall>fees r1 r2 r3 approvalAmount.
               graphQlClient_fees this (service_platform_id proposal) (platform_id proposal)
                 = Inr (Some fees)
               \<and> fee_rates fees = return (r1, r2, r3)
               \<and> calculate (rateAmount proposal) r1 r2 r3 = Inr approvalAmount
               \<longrightarrow> fst (approve calculate this serviceId proposalId metaEvidenceCid platformId) =
                     [ProposalGetOne (or_default platformId (platformID this)) proposalId,
                      GetProtocolAndPlatformsFees (service_platform_id proposal)
                        (platform_id proposal),
                      WriteContract ''talentLayerEscrow'' ''createTransaction''
                        [ParseInt serviceId, ParseInt (seller_id proposal),
                         Str metaEvidenceCid, Str (the (proposal_cid proposal))]
                        (Some approvalAmount)])"
proof -
  let ?fq = "graphQlClient_fees this (service_platform_id proposal) (platform_id proposal)"
  have a: "filter is_allowance_call
           (fst (approve calculate this serviceId proposalId metaEvidenceCid platformId)) = []
         \<and> filter is_fee_query
             (fst (approve calculate this serviceId proposalId metaEvidenceCid platformId)) =
             [GetProtocolAndPlatformsFees (service_platform_id proposal) (platform_id proposal)]"
  proof (cases ?fq)
    case (Inl e)
    then show ?thesis using assms
      by (simp add: approve_def Let_def io_simps getProtocolAndPlatformsFees_def)
  next
    case (Inr fo)
    show ?thesis
    proof (cases fo)
      case None
      then show ?thesis using assms Inr
        by (simp add: approve_def Let_def io_simps getProtocolAndPlatformsFees_def throw_def)
    next
      case (Some fees)
      obtain t r where fr: "fee_rates fees = (t, r)" by (cases "fee_rates fees")
      have t: "t = []" using fr
        by (auto simp: fee_rates_def throw_def return_def split: option.splits list.splits)
      show ?thesis
      proof (cases r)
        case (Inl e)
        then show ?thesis using assms Inr Some fr t
          by (simp add: approve_def Let_def io_simps getProtocolAndPlatformsFees_def)
      next
        case (Inr rates)
        obtain r1 r2 r3 where rates: "rates = (r1, r2, r3)" by (cases rates)
        show ?thesis
        proof (cases "calculate (rateAmount proposal) r1 r2 r3")
          case (Inl e)
          then show ?thesis using assms \<open>?fq = Inr fo\<close> Some fr t Inr rates
            by (simp add: approve_def Let_def io_simps getProtocolAndPlatformsFees_def)
        next
          case (Inr a)
          then show ?thesis using assms \<open>?fq = Inr fo\<close> Some fr t \<open>r = Inr rates\<close> rates
            by (cases "writeContract this ''talentLayerEscrow'' ''createTransaction''
                         [ParseInt serviceId, ParseInt (seller_id proposal),
                          Str metaEvidenceCid, Str (the (proposal_cid proposal))] (Some a)")
               (simp_all add: approve_def Let_def io_simps getProtocolAndPlatformsFees_def
                  throw_def return_def)
        qed
      qed
    qed
  qed
  have b: "fst (approve calculate this serviceId proposalId metaEvidenceCid platformId) =
                     [ProposalGetOne (or_default platformId (platformID this)) proposalId,
                      GetProtocolAndPlatformsFees (service_platform_id proposal)
                        (platform_id proposal),
                      WriteContract ''talentLayerEscrow'' ''createTransaction''
                        [ParseInt serviceId, ParseInt (seller_id proposal),
                         Str metaEvidenceCid, Str (the (proposal_cid proposal))]
                        (Some approvalAmount)]"
    if "?fq = Inr (Some fees)" "fee_rates fees = return (r1, r2, r3)"
       "calculate (rateAmount proposal) r1 r2 r3 = Inr approvalAmount"
    for fees r1 r2 r3 approvalAmount
    using assms that
    by (cases "writeContract this ''talentLayerEscrow'' ''createTransaction''
                         [ParseInt serviceId, ParseInt (seller_id proposal),
                          Str metaEvidenceCid, Str (the (proposal_cid proposal))]
                         (Some approvalAmount)")
       (simp_all add: approve_def Let_def io_simps getProtocolAndPlatformsFees_def
                  throw_def return_def)
  show ?thesis using a b by blast
qed

text \<open>C1, amended, at the native proposal of the concrete inputs.\<close>

theorem approve_native_witness:
  "filter is_allowance_call
     (fst (approve calculateApprovalAmount
             (example_escrow (example_proposal RateToken_NATIVE) 0 (Inr ''0xa'')
                (Inr ''success''))
             ''7'' ''11'' ''QmMeta'' None)) = []
   \<and> filter is_fee_query
     (fst (approve calculateApprovalAmount
             ((example_escrow (example_proposal RateToken_NATIVE) 0 (Inr ''0xa'')
                 (Inr ''success''))
                \<lparr>graphQlClient_fees := (\<lambda>_ _. Inl (Error ''Network request failed''))\<rparr>)
             ''7'' ''11'' ''QmMeta'' None)) = [GetProtocolAndPlatformsFees ''1'' ''3'']
   \<and> fst (approve calculateApprovalAmount (example_escrow (example_proposal RateToken_NATIVE) 0 (Inr ''0xa'')
                      (Inr ''success''))
             ''7'' ''11'' ''QmMeta'' None) =
       [ProposalGetOne 1 ''11'',
        GetProtocolAndPlatformsFees ''1'' ''3'',
        WriteContract ''talentLayerEscrow'' ''createTransaction''
          [ParseInt ''7'', ParseInt ''2'', Str ''QmMeta'', Str ''QmProposal''] (Some 1100000)]"
proof -
  let ?p = "example_proposal RateToken_NATIVE"
  let ?E = "example_escrow ?p 0 (Inr ''0xa'') (Inr ''success'')"
  have h1: "proposal_getOne ?E (or_default None (platformID ?E)) ''11'' = Inr (Some ?p)"
    by (simp add: example_escrow_def)
  have h2: "truthy (proposal_cid ?p)" by (simp add: example_proposal_def)
  have h3: "rateToken_address ?p = RateToken_NATIVE" by (simp add: example_proposal_def)
  let ?F = "?E\<lparr>graphQlClient_fees := (\<lambda>_ _. Inl (Error ''Network request failed''))\<rparr>"
  have g1: "proposal_getOne ?F (or_default None (platformID ?F)) ''11'' = Inr (Some ?p)"
    by (simp add: example_escrow_def)
  have f1: "graphQlClient_fees ?E (service_platform_id ?p) (platform_id ?p)
              = Inr (Some example_fees)"
    by (simp add: example_escrow_def)
  note th = approve_native [where calculate = calculateApprovalAmount, OF h1 h2 h3, where serviceId = "''7''"
              and metaEvidenceCid = "''QmMeta''"]
  have "fst (approve calculateApprovalAmount ?E ''7'' ''11'' ''QmMeta'' None) =
          [ProposalGetOne (or_default None (platformID ?E)) ''11'',
           GetProtocolAndPlatformsFees (service_platform_id ?p) (platform_id ?p),
           WriteContract ''talentLayerEscrow'' ''createTransaction''
             [ParseInt ''7'', ParseInt (seller_id ?p), Str ''QmMeta'',
              Str (the (proposal_cid ?p))] (Some 1100000)]"
    using th f1 example_fee_rates example_amount [of RateToken_NATIVE] by blast
  then have "fst (approve calculateApprovalAmount ?E ''7'' ''11'' ''QmMeta'' None) =
       [ProposalGetOne 1 ''11'',
        GetProtocolAndPlatformsFees ''1'' ''3'',
        WriteContract ''talentLayerEscrow'' ''createTransaction''
          [ParseInt ''7'', ParseInt ''2'', Str ''QmMeta'', Str ''QmProposal''] (Some 1100000)]"
    by (simp add: example_escrow_def example_proposal_def)
  moreover have "filter is_fee_query (fst (approve calculateApprovalAmount ?F
                   ''7'' ''11'' ''QmMeta'' None)) = [GetProtocolAndPlatformsFees ''1'' ''3'']"
    using approve_native [where calculate = calculateApprovalAmount, OF g1 h2 h3,
            where serviceId = "''7''" and metaEvidenceCid = "''QmMeta''"]
    by (simp add: example_proposal_def)
  ultimately show ?thesis using th by simp
qed

text \<open>
  C3. On the ERC-20 path of \<^verbatim>\<open>approve\<close>, when the allowance read from the token is
  at least the computed approval amount, the calls are the proposal lookup, the fee
  query, the allowance check and the escrow creation: no approval transaction is
  submitted.
\<close>

theorem approve_sufficient_allowance:
  assumes "proposal_getOne this (or_default platformId (platformID this)) proposalId
             = Inr (Some proposal)"
    and "truthy (proposal_cid proposal)"
    and "rateToken_address proposal \<noteq> RateToken_NATIVE"
    and "graphQlClient_fees this (service_platform_id proposal) (platform_id proposal)
           = Inr (Some fees)"
    and "fee_rates fees = return (r1, r2, r3)"
    and "calculate (rateAmount proposal) r1 r2 r3 = Inr approvalAmount"
    and "erc20_checkAllowance this (rateToken_address proposal) = Inr allowance"
    and "approvalAmount \<le> allowance"
  shows "fst (approve calculate this serviceId proposalId metaEvidenceCid platformId) =
           [ProposalGetOne (or_default platformId (platformID this)) proposalId,
            GetProtocolAndPlatformsFees (service_platform_id proposal) (platform_id proposal),
            CheckAllowance (rateToken_address proposal),
            WriteContract ''talentLayerEscrow'' ''createTransaction''
              [ParseInt serviceId, ParseInt (seller_id proposal),
               Str metaEvidenceCid, Str (the (proposal_cid proposal))] None]
         \<and> filter is_erc20_approve
             (fst (approve calculate this serviceId proposalId metaEvidenceCid platformId)) = []"
proof -
  have "\<not> allowance < approvalAmount" using assms(8) by simp
  then show ?thesis
    unfolding approve_erc20_resolved [where calculate = calculate, OF assms(1-7)]
    by (cases "writeContract this ''talentLayerEscrow'' ''createTransaction''
                 [ParseInt serviceId, ParseInt (seller_id proposal),
                  Str metaEvidenceCid, Str (the (proposal_cid proposal))] None")
       (simp_all add: io_simps throw_def return_def)
qed

text \<open>C3 at an allowance equal to the required amount.\<close>

theorem approve_sufficient_allowance_witness:
  "fst (approve calculateApprovalAmount (example_escrow (example_proposal USDC) 1100000 (Inr ''0xa'') (Inr ''success''))
          ''7'' ''11'' ''QmMeta'' None) =
     [ProposalGetOne 1 ''11'',
      GetProtocolAndPlatformsFees ''1'' ''3'',
      CheckAllowance USDC,
      WriteContract ''talentLayerEscrow'' ''createTransaction''
        [ParseInt ''7'', ParseInt ''2'', Str ''QmMeta'', Str ''QmProposal''] None]"
proof -
  let ?p = "example_proposal USDC"
  let ?E = "example_escrow ?p 1100000 (Inr ''0xa'') (Inr ''success'')"
  have h1: "proposal_getOne ?E (or_default None (platformID ?E)) ''11'' = Inr (Some ?p)"
    by (simp add: example_escrow_def)
  have h2: "truthy (proposal_cid ?p)" by (simp add: example_proposal_def)
  have h4: "graphQlClient_fees ?E (service_platform_id ?p) (platform_id ?p)
              = Inr (Some example_fees)"
    by (simp add: example_escrow_def)
  have h7: "erc20_checkAllowance ?E (rateToken_address ?p) = Inr 1100000"
    by (simp add: example_escrow_def)
  have h8: "(1100000::int) \<le> 1100000" by simp
  from approve_sufficient_allowance
         [where calculate = calculateApprovalAmount, OF h1 h2 USDC_not_native h4 example_fee_rates example_amount h7 h8,
          of "''7''" "''QmMeta''"]
  show ?thesis by (simp add: example_escrow_def example_proposal_def)
qed

text \<open>
  C4. Whenever the calls of \<^verbatim>\<open>approve\<close> contain an ERC-20 approval, its token is the
  rate token of the fetched proposal and its amount is exactly what the calculator
  returned for the rate amount of the proposal and the three fee rates of the fee query.
\<close>

theorem approve_approval_amount_exact:
  assumes "Erc20Approve token amount
             \<in> set (fst (approve calculate this serviceId proposalId metaEvidenceCid platformId))"
  shows "\<exists>proposal fees r1 r2 r3.
           proposal_getOne this (or_default platformId (platformID this)) proposalId
             = Inr (Some proposal)
         \<and> token = rateToken_address proposal
         \<and> graphQlClient_fees this (service_platform_id proposal) (platform_id proposal)
             = Inr (Some fees)
         \<and> fee_rates fees = return (r1, r2, r3)
         \<and> calculate (rateAmount proposal) r1 r2 r3 = Inr amount"
proof -
  let ?tr = "fst (approve calculate this serviceId proposalId metaEvidenceCid platformId)"
  let ?P = "or_default platformId (platformID this)"
  show ?thesis
  proof (cases "proposal_getOne this ?P proposalId")
    case (Inl e)
    then have "?tr = [ProposalGetOne ?P proposalId]"
      by (simp add: approve_def Let_def io_simps)
    then show ?thesis using assms by simp
  next
    case (Inr po)
    show ?thesis
    proof (cases po)
      case None
      then have "?tr = [ProposalGetOne ?P proposalId]" using Inr
        by (simp add: approve_def Let_def io_simps throw_def)
      then show ?thesis using assms by simp
    next
      case (Some proposal)
      note got = Inr [unfolded Some]
      let ?fq = "graphQlClient_fees this (service_platform_id proposal) (platform_id proposal)"
      let ?pre = "[ProposalGetOne ?P proposalId,
                   GetProtocolAndPlatformsFees (service_platform_id proposal)
                     (platform_id proposal)]"
      show ?thesis
      proof (cases "truthy (proposal_cid proposal)")
        case False
        then have "?tr = [ProposalGetOne ?P proposalId]" using got
          by (simp add: approve_def Let_def io_simps throw_def)
        then show ?thesis using assms by simp
      next
        case True
        note cid = True
        show ?thesis
        proof (cases ?fq)
          case (Inl e)
          then have "?tr = ?pre" using got cid
            by (simp add: approve_def Let_def io_simps getProtocolAndPlatformsFees_def)
          then show ?thesis using assms by simp
        next
          case (Inr fo)
          show ?thesis
          proof (cases fo)
            case None
            then have "?tr = ?pre" using got cid Inr
              by (simp add: approve_def Let_def io_simps getProtocolAndPlatformsFees_def
                    throw_def)
            then show ?thesis using assms by simp
          next
            case (Some fees)
            note fq = Inr [unfolded Some]
            from fee_rates_cases [of fees] show ?thesis
            proof
              assume "fee_rates fees = throw TypeError"
              then have "?tr = ?pre" using got cid fq
                by (simp add: approve_def Let_def io_simps getProtocolAndPlatformsFees_def
                      throw_def)
              then show ?thesis using assms by simp
            next
              assume "\<exists>r1 r2 r3. fee_rates fees = return (r1, r2, r3)"
              then obtain r1 r2 r3 where fr: "fee_rates fees = return (r1, r2, r3)" by blast
              show ?thesis
              proof (cases "calculate (rateAmount proposal) r1 r2 r3")
                case (Inl e)
                then have "?tr = ?pre" using got cid fq fr
                  by (simp add: approve_def Let_def io_simps getProtocolAndPlatformsFees_def)
                then show ?thesis using assms by simp
              next
                case (Inr a)
                note calc = Inr
                show ?thesis
                proof (cases "rateToken_address proposal = RateToken_NATIVE")
                  case True
                  have "filter is_allowance_call ?tr = []"
                    using got cid True fq fr calc
                    by (cases "writeContract this ''talentLayerEscrow'' ''createTransaction''
                                 [ParseInt serviceId, ParseInt (seller_id proposal),
                                  Str metaEvidenceCid, Str (the (proposal_cid proposal))]
                                 (Some a)")
                       (simp_all add: approve_def Let_def io_simps
                          getProtocolAndPlatformsFees_def throw_def return_def)
                  then have "Erc20Approve token amount \<notin> set ?tr"
                    by (auto simp: filter_empty_conv)
                  then show ?thesis using assms by simp
                next
                  case False
                  note erc = False
                  show ?thesis
                  proof (cases "erc20_checkAllowance this (rateToken_address proposal)")
                    case (Inl e)
                    then have "?tr = ?pre @ [CheckAllowance (rateToken_address proposal)]"
                      using got cid erc fq fr calc
                      by (simp add: approve_def Let_def io_simps
                            getProtocolAndPlatformsFees_def)
                    then show ?thesis using assms by simp
                  next
                    case (Inr allowance)
                    have "token = rateToken_address proposal \<and> amount = a"
                      using assms
                      unfolding approve_erc20_resolved [where calculate = calculate, OF got cid erc fq fr calc Inr]
                      by (cases "writeContract this ''talentLayerEscrow'' ''createTransaction''
                                 [ParseInt serviceId, ParseInt (seller_id proposal),
                                  Str metaEvidenceCid, Str (the (proposal_cid proposal))]
                                 None")
                         (auto simp: io_simps request_allowance_cases
                            return_def throw_def split: if_splits sum.splits)
                    then show ?thesis using got fq fr calc by blast
                  qed
                qed
              qed
            qed
          qed
        qed
      qed
    qed
  qed
qed

text \<open>C4 at an allowance one unit short of the required amount.\<close>

theorem approve_approval_amount_exact_witness:
  "Erc20Approve USDC 1100000
     \<in> set (fst (approve calculateApprovalAmount (example_escrow (example_proposal USDC) 1099999 (Inr ''0xa'')
                          (Inr ''success''))
                 ''7'' ''11'' ''QmMeta'' None))
   \<and> calculateApprovalAmount (rateAmount (example_proposal USDC)) 500 200 300 = Inr 1100000"
proof -
  let ?p = "example_proposal USDC"
  let ?E = "example_escrow ?p 1099999 (Inr ''0xa'') (Inr ''success'')"
  have h1: "proposal_getOne ?E (or_default None (platformID ?E)) ''11'' = Inr (Some ?p)"
    by (simp add: example_escrow_def)
  have h2: "truthy (proposal_cid ?p)" by (simp add: example_proposal_def)
  have h4: "graphQlClient_fees ?E (service_platform_id ?p) (platform_id ?p)
              = Inr (Some example_fees)"
    by (simp add: example_escrow_def)
  have h7: "erc20_checkAllowance ?E (rateToken_address ?p) = Inr 1099999"
    by (simp add: example_escrow_def)
  have ap: "erc20_approve ?E (rateToken_address ?p) 1100000 = Inr ''0xa''"
    by (simp add: example_escrow_def)
  have m: "Erc20Approve USDC 1100000 \<in> set (fst (approve calculateApprovalAmount ?E ''7'' ''11'' ''QmMeta'' None))"
    unfolding approve_erc20_resolved
                [where calculate = calculateApprovalAmount, OF h1 h2 USDC_not_native h4 example_fee_rates example_amount h7,
                 of "''7''" "''QmMeta''"]
    by (simp add: io_simps request_allowance_cases ap)
       (simp add: example_escrow_def example_proposal_def return_def)
  from approve_approval_amount_exact [where calculate = calculateApprovalAmount, OF m]
  obtain proposal fees r1 r2 r3 where
      p: "proposal_getOne ?E (or_default None (platformID ?E)) ''11'' = Inr (Some proposal)"
    and f: "graphQlClient_fees ?E (service_platform_id proposal) (platform_id proposal)
              = Inr (Some fees)"
    and r: "fee_rates fees = return (r1, r2, r3)"
    and c: "calculateApprovalAmount (rateAmount proposal) r1 r2 r3 = Inr 1100000"
    by blast
  have "proposal = ?p" using p h1 by simp
  moreover have "fees = example_fees" using f by (simp add: example_escrow_def)
  ultimately have "calculateApprovalAmount (rateAmount ?p) r1 r2 r3 = Inr 1100000"
      and "(r1, r2, r3) = (500, 200, 300)"
    using c r example_fee_rates by (simp_all add: return_def)
  then show ?thesis using m by simp
qed

text \<open>
  C5, as stated, fails: a submission that throws and a receipt whose status is not
  \<^verbatim>\<open>success\<close> end \<^verbatim>\<open>approve\<close> with the same error, the one of the
  \<^verbatim>\<open>catch\<close> block.
\<close>

theorem approve_approval_failure_counterexample:
  "snd (approve calculateApprovalAmount (example_escrow (example_proposal USDC) 0
                   (Inl (Error ''User rejected the request'')) (Inr ''success''))
          ''7'' ''11'' ''QmMeta'' None) =
     Inl (Error ''Approval transaction failed with error'')
   \<and> snd (approve calculateApprovalAmount (example_escrow (example_proposal USDC) 0
                   (Inr ''0xa'') (Inr ''reverted''))
          ''7'' ''11'' ''QmMeta'' None) =
     Inl (Error ''Approval transaction failed with error'')"
  by (simp add: approve_def Let_def io_simps getProtocolAndPlatformsFees_def
        example_escrow_def example_fee_rates example_amount USDC_not_native example_cid
        request_allowance_cases)

text \<open>
  C5, amended. On the ERC-20 path of \<^verbatim>\<open>approve\<close> with an insufficient allowance, a
  submission that throws, a receipt wait that throws and a receipt whose status is not
  \<^verbatim>\<open>success\<close> all end the operation with the one error
  \<^verbatim>\<open>Approval transaction failed with error\<close>; the only write made is the one
  approval submission, so nothing is retried and no escrow is created.
\<close>

theorem approve_approval_failure:
  assumes "proposal_getOne this (or_default platformId (platformID this)) proposalId
             = Inr (Some proposal)"
    and "truthy (proposal_cid proposal)"
    and "rateToken_address proposal \<noteq> RateToken_NATIVE"
    and "graphQlClient_fees this (service_platform_id proposal) (platform_id proposal)
           = Inr (Some fees)"
    and "fee_rates fees = return (r1, r2, r3)"
    and "calculate (rateAmount proposal) r1 r2 r3 = Inr approvalAmount"
    and "erc20_checkAllowance this (rateToken_address proposal) = Inr allowance"
    and "allowance < approvalAmount"
    and "(\<exists>e. erc20_approve this (rateToken_address proposal) approvalAmount = Inl e)
         \<or> (\<exists>h. erc20_approve this (rateToken_address proposal) approvalAmount = Inr h
                \<and> waitForTransactionReceipt this h \<noteq> Inr ''success'')"
  shows "snd (approve calculate this serviceId proposalId metaEvidenceCid platformId) =
           Inl (Error ''Approval transaction failed with error'')
         \<and> filter is_write (fst (approve calculate this serviceId proposalId metaEvidenceCid platformId)) =
             [Erc20Approve (rateToken_address proposal) approvalAmount]"
  using assms(8,9)
  unfolding approve_erc20_resolved [where calculate = calculate, OF assms(1-7)]
  by (auto simp: io_simps request_allowance_cases)

text \<open>
  C5, amended, at a rejected submission, a reverted receipt and a receipt wait that
  throws.
\<close>

theorem approve_approval_failure_witness:
  "filter is_write
     (fst (approve calculateApprovalAmount (example_escrow (example_proposal USDC) 0
                      (Inl (Error ''User rejected the request'')) (Inr ''success''))
             ''7'' ''11'' ''QmMeta'' None)) = [Erc20Approve USDC 1100000]
   \<and> filter is_write
     (fst (approve calculateApprovalAmount (example_escrow (example_proposal USDC) 0
                      (Inr ''0xa'') (Inr ''reverted''))
             ''7'' ''11'' ''QmMeta'' None)) = [Erc20Approve USDC 1100000]
   \<and> snd (approve calculateApprovalAmount (example_escrow (example_proposal USDC) 0
                      (Inr ''0xa'') (Inl (Error ''timed out'')))
             ''7'' ''11'' ''QmMeta'' None) =
       Inl (Error ''Approval transaction failed with error'')"
proof -
  let ?p = "example_proposal USDC"
  have h2: "truthy (proposal_cid ?p)" by (simp add: example_proposal_def)
  have tok: "rateToken_address ?p = USDC" by (simp add: example_proposal_def)
  have h8: "(0::int) < 1100000" by simp
  have a: "filter is_write (fst (approve calculateApprovalAmount (example_escrow ?p 0 approval receipt)
                                   ''7'' ''11'' ''QmMeta'' None))
             = [Erc20Approve USDC 1100000]
           \<and> snd (approve calculateApprovalAmount (example_escrow ?p 0 approval receipt) ''7'' ''11'' ''QmMeta'' None)
             = Inl (Error ''Approval transaction failed with error'')"
    if "(\<exists>e. approval = Inl e) \<or> (\<exists>h. approval = Inr h \<and> receipt \<noteq> Inr ''success'')"
    for approval receipt
  proof -
    let ?E = "example_escrow ?p 0 approval receipt"
    have h1: "proposal_getOne ?E (or_default None (platformID ?E)) ''11'' = Inr (Some ?p)"
      by (simp add: example_escrow_def)
    have h4: "graphQlClient_fees ?E (service_platform_id ?p) (platform_id ?p)
                = Inr (Some example_fees)"
      by (simp add: example_escrow_def)
    have h7: "erc20_checkAllowance ?E (rateToken_address ?p) = Inr 0"
      by (simp add: example_escrow_def)
    have h9: "(\<exists>e. erc20_approve ?E (rateToken_address ?p) 1100000 = Inl e)
              \<or> (\<exists>h. erc20_approve ?E (rateToken_address ?p) 1100000 = Inr h
                     \<and> waitForTransactionReceipt ?E h \<noteq> Inr ''success'')"
      using that by (simp add: example_escrow_def)
    from approve_approval_failure
           [where calculate = calculateApprovalAmount, OF h1 h2 USDC_not_native h4 example_fee_rates example_amount h7 h8 h9,
            of "''7''" "''QmMeta''"]
    show ?thesis by (simp add: tok)
  qed
  show ?thesis
    using a [of "Inl (Error ''User rejected the request'')" "Inr ''success''"]
          a [of "Inr ''0xa''" "Inr ''reverted''"]
          a [of "Inr ''0xa''" "Inl (Error ''timed out'')"]
    by simp
qed

text \<open>
  C6. When the proposal that \<^verbatim>\<open>approve\<close> fetched has no content identifier
  (\<^verbatim>\<open>cid\<close> absent or empty), the operation fails with the error
  \<^verbatim>\<open>Proposal cid not found\<close> and the only call it has made is the proposal lookup: the
  fee schedule has not been queried.
\<close>

theorem approve_missing_cid:
  assumes "proposal_getOne this (or_default platformId (platformID this)) proposalId
             = Inr (Some proposal)"
    and "\<not> truthy (proposal_cid proposal)"
  shows "approve calculate this serviceId proposalId metaEvidenceCid platformId =
           ([ProposalGetOne (or_default platformId (platformID this)) proposalId],
            Inl (Error ''Proposal cid not found''))
         \<and> filter is_fee_query
              (fst (approve calculate this serviceId proposalId metaEvidenceCid platformId)) = []"
  using assms by (simp add: approve_def Let_def io_simps throw_def)

text \<open>C6 at a proposal without a content identifier and at one whose identifier is empty.\<close>

theorem approve_missing_cid_witness:
  "approve calculateApprovalAmount
       (example_escrow ((example_proposal USDC)\<lparr>proposal_cid := None\<rparr>) 0
          (Inr ''0xa'') (Inr ''success''))
       ''7'' ''11'' ''QmMeta'' None =
     ([ProposalGetOne 1 ''11''], Inl (Error ''Proposal cid not found''))
   \<and> approve calculateApprovalAmount
       (example_escrow ((example_proposal USDC)\<lparr>proposal_cid := Some []\<rparr>) 0
          (Inr ''0xa'') (Inr ''success''))
       ''7'' ''11'' ''QmMeta'' (Some 5) =
     ([ProposalGetOne 5 ''11''], Inl (Error ''Proposal cid not found''))"
proof -
  let ?p = "(example_proposal USDC)\<lparr>proposal_cid := None\<rparr>"
  let ?q = "(example_proposal USDC)\<lparr>proposal_cid := Some []\<rparr>"
  let ?E = "example_escrow ?p 0 (Inr ''0xa'') (Inr ''success'')"
  let ?F = "example_escrow ?q 0 (Inr ''0xa'') (Inr ''success'')"
  have p1: "proposal_getOne ?E (or_default None (platformID ?E)) ''11'' = Inr (Some ?p)"
    by (simp add: example_escrow_def)
  have p2: "\<not> truthy (proposal_cid ?p)" by simp
  have q1: "proposal_getOne ?F (or_default (Some 5) (platformID ?F)) ''11'' = Inr (Some ?q)"
    by (simp add: example_escrow_def)
  have q2: "\<not> truthy (proposal_cid ?q)" by simp
  show ?thesis
    using approve_missing_cid [OF p1 p2, where calculate = calculateApprovalAmount
            and serviceId = "''7''" and metaEvidenceCid = "''QmMeta''"]
          approve_missing_cid [OF q1 q2, where calculate = calculateApprovalAmount
            and serviceId = "''7''" and metaEvidenceCid = "''QmMeta''"]
    by (simp add: example_escrow_def)
qed

section \<open>Release and reimbursement\<close>

text \<open>
  C7. When the service that \<^verbatim>\<open>release\<close> or \<^verbatim>\<open>reimburse\<close> fetched has no
  transaction identifier (no service, no transaction, or an absent or empty identifier),
  the operation fails with the error \<^verbatim>\<open>service transaction not found\<close> and the only
  call it has made is the service lookup: nothing is written to the ledger.
\<close>

theorem release_reimburse_no_transaction:
  assumes "service_getOne this (or_default platformId (platformID this)) serviceId = Inr service"
    and "\<not> truthy (transactionId_of service)"
  shows "release this serviceId amount userId platformId =
           ([ServiceGetOne (or_default platformId (platformID this)) serviceId],
            Inl (Error ''service transaction not found''))
         \<and> reimburse this serviceId amount userId platformId =
           ([ServiceGetOne (or_default platformId (platformID this)) serviceId],
            Inl (Error ''service transaction not found''))
         \<and> filter is_write (fst (release this serviceId amount userId platformId)) = []
         \<and> filter is_write (fst (reimburse this serviceId amount userId platformId)) = []"
  using assms by (simp add: release_def reimburse_def Let_def io_simps throw_def)

text \<open>C7 at a service that is not found and at a service without a transaction.\<close>

theorem release_reimburse_no_transaction_witness:
  "release (example_escrow (example_proposal USDC) 0 (Inr ''0xa'') (Inr ''success''))
       ''7'' 500000 3 None =
     ([ServiceGetOne 1 ''7''], Inl (Error ''service transaction not found''))
   \<and> reimburse
       ((example_escrow (example_proposal USDC) 0 (Inr ''0xa'') (Inr ''success''))
          \<lparr>service_getOne := (\<lambda>_ _. Inr (Some \<lparr>transaction = None\<rparr>))\<rparr>)
       ''7'' 500000 3 (Some 4) =
     ([ServiceGetOne 4 ''7''], Inl (Error ''service transaction not found''))"
proof -
  let ?E = "example_escrow (example_proposal USDC) 0 (Inr ''0xa'') (Inr ''success'')"
  let ?E' = "?E\<lparr>service_getOne := (\<lambda>_ _. Inr (Some \<lparr>transaction = None\<rparr>))\<rparr>"
  have a: "service_getOne ?E (or_default None (platformID ?E)) ''7'' = Inr None"
    by (simp add: example_escrow_def)
  have a': "\<not> truthy (transactionId_of None)" by (simp add: transactionId_of_def)
  have b: "service_getOne ?E' (or_default (Some 4) (platformID ?E')) ''7''
             = Inr (Some \<lparr>transaction = None\<rparr>)"
    by simp
  have b': "\<not> truthy (transactionId_of (Some \<lparr>transaction = None\<rparr>))"
    by (simp add: transactionId_of_def)
  show ?thesis
    using release_reimburse_no_transaction [OF a a', of 500000 3]
          release_reimburse_no_transaction [OF b b', of 500000 3]
    by (simp add: example_escrow_def)
qed

section \<open>The arbitrator of a platform\<close>

text \<open>
  C8. When the configuration in force (the custom one if present, else the one of the
  wallet's chain) names an arbitrator contract, \<^verbatim>\<open>updateArbitrator\<close> submits its one
  ledger write exactly when the address, in lower case, equals the zero address or the
  arbitrator contract's address in lower case; for every other address it fails with
  \<^verbatim>\<open>Invalid Arbitrator\<close> and has made no call.
\<close>

theorem updateArbitrator_allow_list:
  assumes "(case customConfig this of
              Some contractConfig \<Rightarrow> Some contractConfig
            | None \<Rightarrow> chains val (wallet_chainId this)) = Some chainConfig"
    and "map_of (contracts chainConfig) ''talentLayerArbitrator'' = Some contract"
  shows "updateArbitrator val this address platformId =
           (if toLowerCase address = toLowerCase zeroAddress
               \<or> toLowerCase address = toLowerCase (contract_address contract)
            then await (WriteContract ''talentLayerPlatformId'' ''updateArbitrator''
                          [Num (or_default platformId (platform_platformID this)),
                           Str address, Str []] None)
                   (wallet_writeContract this ''talentLayerPlatformId'' ''updateArbitrator''
                          [Num (or_default platformId (platform_platformID this)),
                           Str address, Str []] None)
            else ([], Inl (Error (''Invalid Arbitrator: '' @ address))))"
proof -
  have "getArbitrators val this (wallet_chainId this) =
          Inr [\<lparr>arbitrator_address = zeroAddress, arbitrator_name = ''None''\<rparr>,
               \<lparr>arbitrator_address = contract_address contract,
                arbitrator_name = ''TalentLayer Arbitrator''\<rparr>]"
    using assms
    by (cases "customConfig this") (simp_all add: getArbitrators_def getChainConfig_def)
  then show ?thesis
    by (auto simp: updateArbitrator_def Let_def io_simps throw_def)
qed

text \<open>
  C8 on the Mumbai network: the arbitrator's address written in lower case and the zero
  address are accepted, the arbitrator of another network is rejected.
\<close>

theorem updateArbitrator_allow_list_witness:
  "updateArbitrator NetworkEnum_value (example_platform None 80001)
       ''0x2ca01a0058cfb3cc4755a7773881ea88ecfbba7c'' None =
     ([WriteContract ''talentLayerPlatformId'' ''updateArbitrator''
         [Num 1, Str ''0x2ca01a0058cfb3cc4755a7773881ea88ecfbba7c'', Str []] None],
      Inr (Some ''0xplatformtx''))
   \<and> updateArbitrator NetworkEnum_value (example_platform None 80001)
       ''0x0000000000000000000000000000000000000000'' None =
     ([WriteContract ''talentLayerPlatformId'' ''updateArbitrator''
         [Num 1, Str ''0x0000000000000000000000000000000000000000'', Str []] None],
      Inr (Some ''0xplatformtx''))
   \<and> updateArbitrator NetworkEnum_value (example_platform None 80001)
       ''0x0F39E0ffEaBE0C100768F16988F0c9405428E2D8'' None =
     ([], Inl (Error ''Invalid Arbitrator: 0x0F39E0ffEaBE0C100768F16988F0c9405428E2D8''))"
proof -
  let ?P = "example_platform None 80001"
  have c: "(case customConfig ?P of
              Some contractConfig \<Rightarrow> Some contractConfig
            | None \<Rightarrow> chains NetworkEnum_value (wallet_chainId ?P)) = Some mumbai"
    by (simp add: example_platform_def chains_mumbai)
  note th = updateArbitrator_allow_list [OF c mumbai_arbitrator, where platformId = None]
  have l1: "toLowerCase ''0x2ca01a0058cfb3cc4755a7773881ea88ecfbba7c''
              = ''0x2ca01a0058cfb3cc4755a7773881ea88ecfbba7c''"
    by (simp add: toLowerCase_def toLowerCase_char_def)
  have l2: "toLowerCase ''0x2CA01a0058cfB3cc4755a7773881ea88eCfBba7C''
              = ''0x2ca01a0058cfb3cc4755a7773881ea88ecfbba7c''"
    by (simp add: toLowerCase_def toLowerCase_char_def)
  have l3: "toLowerCase ''0x0F39E0ffEaBE0C100768F16988F0c9405428E2D8''
              = ''0x0f39e0ffeabe0c100768f16988f0c9405428e2d8''"
    by (simp add: toLowerCase_def toLowerCase_char_def)
  have l4: "toLowerCase ''0x0000000000000000000000000000000000000000''
              = ''0x0000000000000000000000000000000000000000''"
    by (simp add: toLowerCase_def toLowerCase_char_def)
  show ?thesis
    using th [of "''0x2ca01a0058cfb3cc4755a7773881ea88ecfbba7c''"]
          th [of "''0x0000000000000000000000000000000000000000''"]
          th [of "''0x0F39E0ffEaBE0C100768F16988F0c9405428E2D8''"]
    by (simp add: l1 l2 l3 l4 zeroAddress_def await_def example_platform_def)
qed

section \<open>The chain configuration lookup\<close>

text \<open>
  C9, as stated, fails: for a network identifier that is not a value of the enum the
  lookup raises nothing and returns \<^verbatim>\<open>undefined\<close>.
\<close>

theorem getChainConfig_unsupported_counterexample:
  "1 \<notin> range NetworkEnum_value \<and> getChainConfig NetworkEnum_value 1 = Inr None"
  by (simp add: not_NetworkEnum_value getChainConfig_def chains_def)

text \<open>
  C9, amended. The lookup returns a configuration for the value of every member of
  \<^verbatim>\<open>NetworkEnum\<close>; for a number that is the value of no member it raises no error
  and returns \<^verbatim>\<open>undefined\<close>; and when the members have distinct values, each gets
  the configuration that \<^verbatim>\<open>chains\<close> lists for it, \<^verbatim>\<open>LOCAL\<close> that of Mumbai.
\<close>

theorem getChainConfig_lookup:
  "(\<forall>n. \<exists>c. getChainConfig val (val n) = Inr (Some c))
   \<and> (\<forall>k. k \<notin> range val \<longrightarrow> getChainConfig val k = Inr None)
   \<and> (inj val \<longrightarrow>
        (\<forall>n. getChainConfig val (val n) =
               Inr (Some (case n of AMOY \<Rightarrow> amoy | MUMBAI \<Rightarrow> mumbai | IEXEC \<Rightarrow> iexec
                          | POLYGON \<Rightarrow> polygon | FUJI \<Rightarrow> fuji | LOCAL \<Rightarrow> mumbai))))"
proof (intro conjI allI impI)
  fix n show "\<exists>c. getChainConfig val (val n) = Inr (Some c)"
    by (cases n) (simp_all add: getChainConfig_def chains_def)
next
  fix k assume "k \<notin> range val"
  then have "k \<noteq> val n" for n by blast
  then show "getChainConfig val k = Inr None"
    by (simp add: getChainConfig_def chains_def)
next
  fix n assume "inj val"
  then have "val a = val b \<longleftrightarrow> a = b" for a b by (simp add: inj_eq)
  then show "getChainConfig val (val n) =
               Inr (Some (case n of AMOY \<Rightarrow> amoy | MUMBAI \<Rightarrow> mumbai | IEXEC \<Rightarrow> iexec
                          | POLYGON \<Rightarrow> polygon | FUJI \<Rightarrow> fuji | LOCAL \<Rightarrow> mumbai))"
    by (cases n) (simp_all add: getChainConfig_def chains_def)
qed

text \<open>C9, amended, at the values 137, 1337 and 5.\<close>

theorem getChainConfig_lookup_witness:
  "getChainConfig NetworkEnum_value 137 = Inr (Some polygon)
   \<and> getChainConfig NetworkEnum_value 1337 = Inr (Some mumbai)
   \<and> getChainConfig NetworkEnum_value 5 = Inr None"
proof -
  note th = getChainConfig_lookup [of NetworkEnum_value]
  have "5 \<notin> range NetworkEnum_value" by (simp add: not_NetworkEnum_value)
  then have a: "getChainConfig NetworkEnum_value 5 = Inr None" using th by blast
  have b: "getChainConfig NetworkEnum_value (NetworkEnum_value n) =
               Inr (Some (case n of AMOY \<Rightarrow> amoy | MUMBAI \<Rightarrow> mumbai | IEXEC \<Rightarrow> iexec
                          | POLYGON \<Rightarrow> polygon | FUJI \<Rightarrow> fuji | LOCAL \<Rightarrow> mumbai))" for n
    using th NetworkEnum_value_inj by blast
  show ?thesis using a b [of POLYGON] b [of LOCAL] by simp
qed

end
